theory Spec2Isabelle
  imports Main "HOL-Library.Sublist" "HOL-Library.Word"
begin

section \<open>Data model of dialect.go\<close>

text \<open>
  Go strings are byte sequences, and so is \<^typ>\<open>string\<close> (a list of 8-bit characters):
  \<open>len\<close> is \<^const>\<open>length\<close>, \<open>+\<close> is \<open>@\<close>. A pointer or an interface value that
  may be \<open>nil\<close> is an \<open>option\<close>; dereferencing \<open>nil\<close> panics, and every panic of the
  source is an \<open>Inl\<close> result of the model.
\<close>

datatype error =
    NilPointerDereference
  | SliceBoundsOutOfRange
  | Panic string

type_synonym DbType = string

record Uri =
  DbType :: DbType
  Proto :: string
  Host :: string
  Port :: string
  DbName :: string
  User :: string
  Passwd :: string
  Charset :: string
  Laddr :: string
  Raddr :: string
  Timeout :: "64 word"

text \<open>
  The connection object \<open>DB\<close> is declared outside this file; the adapter only stores
  and returns the pointer, so a connection is an opaque handle here.
\<close>

datatype DB = Conn nat

text \<open>
  \<open>Dialect\<close> is an interface. A value of it is modelled by what its methods return;
  the fields are the methods that the code of \<open>Base\<close> calls. \<open>OpenDialect\<close> only passes
  two of the other methods' results to \<open>Open\<close>, which is declared outside this file, and is
  not modelled.
\<close>

record Dialect =
  URI :: "Uri option"
  QuoteStr :: string
  SupportEngine :: bool
  SupportCharset :: bool

text \<open>
  \<open>Column\<close>, \<open>Table\<close> and \<open>Index\<close> are declared outside this file. They are taken as
  parameters: a record holds the fields that \<open>Base\<close> reads and the results of the
  methods that it calls (\<open>col.String(d)\<close>, \<open>col.StringNoPk(d)\<close>, \<open>table.ColumnsSeq()\<close>,
  \<open>table.GetColumn(name)\<close>, which returns a pointer and so may return \<open>nil\<close>).
\<close>

record Column =
  IsPrimaryKey :: bool
  String :: "Dialect \<Rightarrow> string"
  StringNoPk :: "Dialect \<Rightarrow> string"

record Table =
  Name :: string
  PrimaryKeys :: "string list"
  ColumnsSeq :: "string list"
  GetColumn :: "string \<Rightarrow> Column option"

record Index =
  Name :: string
  Type :: int
  Cols :: "string list"

text \<open>
  Modelled from the spec: the constant \<open>UniqueType\<close> is declared with \<open>Index\<close>, outside
  this file, and the spec speaks of an index whose type is unique without giving the
  constant a value. The code only compares \<open>index.Type\<close> with it, and no proof below
  unfolds the value chosen here.
\<close>

definition UniqueType :: int where
  "UniqueType = 2"

record Base =
  db :: "DB option"
  dialect :: "Dialect option"
  driverName :: string
  dataSourceName :: string
  Uri :: "Uri option"

section \<open>Library functions of Go used by the code\<close>

text \<open>
  \<open>strings.Join\<close> and \<open>strings.TrimSpace\<close> belong to Go's standard library; they are
  modelled from its documentation. \<open>strings.Join(elems, sep)\<close> concatenates the elements
  with the separator between them.
\<close>

fun Join :: "string list \<Rightarrow> string \<Rightarrow> string" where
  "Join [] sep = []"
| "Join [x] sep = x"
| "Join (x # y # ys) sep = x @ sep @ Join (y # ys) sep"

text \<open>
  \<open>strings.TrimSpace(s)\<close> removes all leading and all trailing white space, as
  \<open>unicode.IsSpace\<close> defines it, from the UTF-8 text \<open>s\<close>. \<open>whiteSpace\<close> lists the UTF-8
  encodings of the code points with Unicode's White_Space property: U+0009 to U+000D,
  U+0020, U+0085, U+00A0, U+1680, U+2000 to U+200A, U+2028, U+2029, U+202F, U+205F and
  U+3000 (the table of Unicode 6.3 and later, which Go has used since version 1.3). A
  byte sequence that is not a valid encoding decodes to U+FFFD, which is not white
  space, so trimming stops there; hence trimming is the repeated removal of one of
  these encodings from the front, then from the back. The general theorems below use of
  this table only that no encoding is empty, that none starts with the letter C, that
  none contains an opening parenthesis, and that none contains a space before its last
  byte.
\<close>

definition whiteSpace :: "string list" where
  "whiteSpace =
     [[CHR 0x09], [CHR 0x0A], [CHR 0x0B], [CHR 0x0C], [CHR 0x0D], [CHR 0x20],
      [CHR 0xC2, CHR 0x85], [CHR 0xC2, CHR 0xA0],
      [CHR 0xE1, CHR 0x9A, CHR 0x80],
      [CHR 0xE2, CHR 0x80, CHR 0x80], [CHR 0xE2, CHR 0x80, CHR 0x81],
      [CHR 0xE2, CHR 0x80, CHR 0x82], [CHR 0xE2, CHR 0x80, CHR 0x83],
      [CHR 0xE2, CHR 0x80, CHR 0x84], [CHR 0xE2, CHR 0x80, CHR 0x85],
      [CHR 0xE2, CHR 0x80, CHR 0x86], [CHR 0xE2, CHR 0x80, CHR 0x87],
      [CHR 0xE2, CHR 0x80, CHR 0x88], [CHR 0xE2, CHR 0x80, CHR 0x89],
      [CHR 0xE2, CHR 0x80, CHR 0x8A],
      [CHR 0xE2, CHR 0x80, CHR 0xA8], [CHR 0xE2, CHR 0x80, CHR 0xA9],
      [CHR 0xE2, CHR 0x80, CHR 0xAF],
      [CHR 0xE2, CHR 0x81, CHR 0x9F],
      [CHR 0xE3, CHR 0x80, CHR 0x80]]"

definition leadingSpace :: "string \<Rightarrow> string option" where
  "leadingSpace s = find (\<lambda>e. prefix e s) whiteSpace"

definition trailingSpace :: "string \<Rightarrow> string option" where
  "trailingSpace s = find (\<lambda>e. suffix e s) whiteSpace"

lemma whiteSpace_nonempty: "e \<in> set whiteSpace \<Longrightarrow> e \<noteq> []"
  by (auto simp: whiteSpace_def)

lemma leadingSpace_Some: "leadingSpace s = Some e \<Longrightarrow> e \<noteq> [] \<and> prefix e s"
  unfolding leadingSpace_def by (auto simp: find_Some_iff whiteSpace_nonempty)

lemma trailingSpace_Some: "trailingSpace s = Some e \<Longrightarrow> e \<noteq> [] \<and> suffix e s"
  unfolding trailingSpace_def by (auto simp: find_Some_iff whiteSpace_nonempty)

function TrimLeft :: "string \<Rightarrow> string" where
  "TrimLeft s =
     (case leadingSpace s of
        None \<Rightarrow> s
      | Some e \<Rightarrow> TrimLeft (drop (length e) s))"
  by pat_completeness auto
termination
proof (relation "measure length")
  show "wf (measure length)" by simp
next
  fix s e
  assume "leadingSpace s = Some e"
  then have "e \<noteq> []" and "prefix e s"
    by (simp_all add: leadingSpace_Some)
  then have "0 < length e" and "length e \<le> length s"
    by (simp_all add: prefix_length_le)
  then show "(drop (length e) s, s) \<in> measure length"
    by (cases s) simp_all
qed

function TrimRight :: "string \<Rightarrow> string" where
  "TrimRight s =
     (case trailingSpace s of
        None \<Rightarrow> s
      | Some e \<Rightarrow> TrimRight (take (length s - length e) s))"
  by pat_completeness auto
termination
proof (relation "measure length")
  show "wf (measure length)" by simp
next
  fix s e
  assume "trailingSpace s = Some e"
  then have "e \<noteq> []" and "suffix e s"
    by (simp_all add: trailingSpace_Some)
  then have "0 < length e" and "length e \<le> length s"
    by (simp_all add: suffix_length_le)
  then show "(take (length s - length e) s, s) \<in> measure length"
    by (cases s) simp_all
qed

declare TrimLeft.simps [simp del]
declare TrimRight.simps [simp del]

definition TrimSpace :: "string \<Rightarrow> string" where
  "TrimSpace s = TrimRight (TrimLeft s)"

text \<open>
  The slice expression \<open>s[:hi]\<close>: it panics unless \<open>0 \<le> hi \<le> len(s)\<close>.
\<close>

definition sliceTo :: "string \<Rightarrow> int \<Rightarrow> error + string" where
  "sliceTo s hi =
     (if hi < 0 \<or> int (length s) < hi then Inl SliceBoundsOutOfRange
      else Inr (take (nat hi) s))"

section \<open>The Base adapter\<close>

text \<open>
  \<open>Init\<close> assigns the five fields and returns the \<open>nil\<close> error; the result is the
  returned error and the adapter after the call.
\<close>

definition Base_Init ::
  "Base \<Rightarrow> DB option \<Rightarrow> Dialect option \<Rightarrow> Uri option \<Rightarrow> string \<Rightarrow> string
     \<Rightarrow> error option \<times> Base" where
  "Base_Init b db' dialect' uri drivername dataSourceName' =
     (None,
      b\<lparr>db := db', dialect := dialect', Uri := uri,
        driverName := drivername, dataSourceName := dataSourceName'\<rparr>)"

definition Base_DB :: "Base \<Rightarrow> DB option" where
  "Base_DB b = db b"

definition Base_URI :: "Base \<Rightarrow> Uri option" where
  "Base_URI b = Uri b"

text \<open>\<open>b.Uri.DbType\<close> dereferences the embedded pointer.\<close>

definition Base_DBType :: "Base \<Rightarrow> error + DbType" where
  "Base_DBType b =
     (case Uri b of
        None \<Rightarrow> Inl NilPointerDereference
      | Some u \<Rightarrow> Inr (DbType u))"

definition Base_DriverName :: "Base \<Rightarrow> string" where
  "Base_DriverName b = driverName b"

definition Base_ShowCreateNull :: "Base \<Rightarrow> bool" where
  "Base_ShowCreateNull b = True"

definition Base_DataSourceName :: "Base \<Rightarrow> string" where
  "Base_DataSourceName b = dataSourceName b"

text \<open>\<open>b.dialect.QuoteStr()\<close> calls a method of an interface value, which may be \<open>nil\<close>.\<close>

definition Base_Quote :: "Base \<Rightarrow> string \<Rightarrow> error + string" where
  "Base_Quote b c =
     (case dialect b of
        None \<Rightarrow> Inl NilPointerDereference
      | Some d \<Rightarrow> Inr (QuoteStr d @ c @ QuoteStr d))"

definition Base_AndStr :: "Base \<Rightarrow> string" where
  "Base_AndStr b = ''AND''"

definition Base_OrStr :: "Base \<Rightarrow> string" where
  "Base_OrStr b = ''OR''"

definition Base_EqStr :: "Base \<Rightarrow> string" where
  "Base_EqStr b = ''=''"

definition Base_RollBackStr :: "Base \<Rightarrow> string" where
  "Base_RollBackStr b = ''ROLL BACK''"

definition Base_DropTableSql :: "Base \<Rightarrow> string \<Rightarrow> string" where
  "Base_DropTableSql b tableName = ''DROP TABLE IF EXISTS `'' @ tableName @ ''`''"

definition Base_CreateIndexSql :: "Base \<Rightarrow> string \<Rightarrow> Index \<Rightarrow> error + string" where
  "Base_CreateIndexSql b tableName index =
     (let (unique, idxName) =
            (if Type index = UniqueType
             then ('' UNIQUE'', ''UQE_'' @ tableName @ ''_'' @ Index.Name index)
             else ('''', ''IDX_'' @ tableName @ ''_'' @ Index.Name index))
      in case Base_Quote b idxName of
           Inl e \<Rightarrow> Inl e
         | Inr qIdxName \<Rightarrow>
      (case Base_Quote b tableName of
           Inl e \<Rightarrow> Inl e
         | Inr qTableName \<Rightarrow>
      (case Base_Quote b '','' of
           Inl e \<Rightarrow> Inl e
         | Inr qComma \<Rightarrow>
      (case Base_Quote b (Join (Cols index) qComma) of
           Inl e \<Rightarrow> Inl e
         | Inr qCols \<Rightarrow>
             Inr (''CREATE'' @ unique @ '' INDEX '' @ qIdxName @ '' ON '' @ qTableName
                  @ '' ('' @ qCols @ '');'')))))"

text \<open>
  The loop of \<open>CreateTableSql\<close> over \<open>table.ColumnsSeq()\<close>, with \<open>sql\<close> as the
  accumulator. \<open>col.IsPrimaryKey\<close> dereferences the pointer that \<open>GetColumn\<close> returned.
  The loop is reached after the first call of \<open>b.Quote\<close>, which panics when the adapter
  has no dialect; so the dialect that the loop passes to the renderers is not \<open>nil\<close>.
\<close>

fun CreateTableSql_columns :: "Dialect \<Rightarrow> Table \<Rightarrow> string list \<Rightarrow> string \<Rightarrow> error + string" where
  "CreateTableSql_columns d table [] sql = Inr sql"
| "CreateTableSql_columns d table (colName # rest) sql =
     (case GetColumn table colName of
        None \<Rightarrow> Inl NilPointerDereference
      | Some col \<Rightarrow>
          (let sql1 = (if IsPrimaryKey col \<and> length (PrimaryKeys table) = 1
                       then sql @ String col d
                       else sql @ StringNoPk col d);
               sql2 = TrimSpace sql1;
               sql3 = sql2 @ '', ''
           in CreateTableSql_columns d table rest sql3))"

definition Base_CreateTableSql ::
  "Base \<Rightarrow> Table \<Rightarrow> string \<Rightarrow> string \<Rightarrow> string \<Rightarrow> error + string" where
  "Base_CreateTableSql b table tableName storeEngine charset =
     (let sql0 = ''CREATE TABLE IF NOT EXISTS '';
          tableName1 = (if tableName = [] then Table.Name table else tableName)
      in case Base_Quote b tableName1 of
           Inl e \<Rightarrow> Inl e
         | Inr qTableName \<Rightarrow>
      (let sql1 = sql0 @ qTableName @ '' ('';
           pkList = PrimaryKeys table
       in case dialect b of
            None \<Rightarrow> Inl NilPointerDereference
          | Some d \<Rightarrow>
      (case CreateTableSql_columns d table (ColumnsSeq table) sql1 of
            Inl e \<Rightarrow> Inl e
          | Inr sql2 \<Rightarrow>
      (case (if length pkList > 1
             then (case Base_Quote b '','' of
                     Inl e \<Rightarrow> Inl e
                   | Inr qComma \<Rightarrow>
                  (case Base_Quote b (Join pkList qComma) of
                     Inl e \<Rightarrow> Inl e
                   | Inr qPk \<Rightarrow> Inr (sql2 @ ''PRIMARY KEY ( '' @ qPk @ '' ), '')))
             else Inr sql2) of
            Inl e \<Rightarrow> Inl e
          | Inr sql3 \<Rightarrow>
      (case sliceTo sql3 (int (length sql3) - 2) of
            Inl e \<Rightarrow> Inl e
          | Inr trimmed \<Rightarrow>
      (let sql4 = trimmed @ '')'';
           sql5 = (if SupportEngine d \<and> storeEngine \<noteq> []
                   then sql4 @ '' ENGINE='' @ storeEngine else sql4)
       in if SupportCharset d
          then (case (if length charset = 0
                      then (case URI d of
                              None \<Rightarrow> Inl NilPointerDereference
                            | Some u \<Rightarrow> Inr (Charset u))
                      else Inr charset) of
                  Inl e \<Rightarrow> Inl e
                | Inr charset1 \<Rightarrow>
                    Inr ((if length charset1 > 0
                          then sql5 @ '' DEFAULT CHARSET '' @ charset1 else sql5) @ '';''))
          else Inr (sql5 @ '';'')))))))"

section \<open>The dialect registry\<close>

text \<open>
  The package variable \<open>dialects\<close> is a Go map; the functions take the map and
  \<open>RegisterDialect\<close> returns the updated one, or the panic. Reading a key that is not
  in a Go map gives the zero value, \<open>nil\<close>.
\<close>

type_synonym registry = "DbType \<rightharpoonup> Dialect"

definition dialects :: registry where
  "dialects = Map.empty"

definition RegisterDialect :: "DbType \<Rightarrow> Dialect option \<Rightarrow> registry \<Rightarrow> error + registry" where
  "RegisterDialect dbName dialect' reg =
     (case dialect' of
        None \<Rightarrow> Inl (Panic ''core: Register dialect is nil'')
      | Some d \<Rightarrow> Inr (reg(dbName \<mapsto> d)))"

definition QueryDialect :: "DbType \<Rightarrow> registry \<Rightarrow> Dialect option" where
  "QueryDialect dbName reg = reg dbName"

text \<open>
  Start-up code registers its dialects one call after the other; a panic stops the
  sequence.
\<close>

fun RegisterDialects :: "(DbType \<times> Dialect option) list \<Rightarrow> registry \<Rightarrow> error + registry" where
  "RegisterDialects [] reg = Inr reg"
| "RegisterDialects ((dbName, dialect') # rest) reg =
     (case RegisterDialect dbName dialect' reg of
        Inl e \<Rightarrow> Inl e
      | Inr reg' \<Rightarrow> RegisterDialects rest reg')"

section \<open>Notions used to state the properties\<close>

text \<open>
  The rendering that the loop of \<open>CreateTableSql\<close> chooses for a column: the inline
  primary-key form when the column is flagged as primary key and the table has exactly
  one primary-key name, the form without primary-key markers otherwise.
\<close>

definition columnDef :: "Dialect \<Rightarrow> Table \<Rightarrow> Column \<Rightarrow> string" where
  "columnDef d table col =
     (if IsPrimaryKey col \<and> length (PrimaryKeys table) = 1 then String col d
      else StringNoPk col d)"

text \<open>
  The text that the loop accumulates after the header, from the renderings taken in
  order: each is appended, trailing white space is removed from what has been
  accumulated, and the separator is appended.
\<close>

fun appendDefs :: "string \<Rightarrow> string list \<Rightarrow> string" where
  "appendDefs acc [] = acc"
| "appendDefs acc (r # rs) = appendDefs (TrimRight (acc @ r) @ '', '') rs"

definition tableHeader :: "Dialect \<Rightarrow> Table \<Rightarrow> string \<Rightarrow> string" where
  "tableHeader d table tableName =
     ''CREATE TABLE IF NOT EXISTS ''
     @ QuoteStr d @ (if tableName = [] then Table.Name table else tableName) @ QuoteStr d
     @ '' (''"

text \<open>
  The text that follows the closing parenthesis when the call returns: the storage
  engine, then the character set, the latter taken from the URI of the dialect when the
  argument is empty.
\<close>

definition tableOptions :: "Dialect \<Rightarrow> string \<Rightarrow> string \<Rightarrow> string" where
  "tableOptions d storeEngine charset =
     (if SupportEngine d \<and> storeEngine \<noteq> [] then '' ENGINE='' @ storeEngine else [])
     @ (if SupportCharset d
        then (let c = (if charset = []
                       then (case URI d of None \<Rightarrow> [] | Some u \<Rightarrow> Charset u)
                       else charset)
              in if c \<noteq> [] then '' DEFAULT CHARSET '' @ c else [])
        else [])"

text \<open>
  A text of at least two bytes without its last two bytes, which is what
  \<open>sql[:len(sql)-2]\<close> leaves of it.
\<close>

definition withoutSeparator :: "string \<Rightarrow> string" where
  "withoutSeparator s = take (length s - 2) s"

text \<open>The composite primary-key clause, each name in the quote character of the dialect.\<close>

definition primaryKeyClause :: "Dialect \<Rightarrow> string list \<Rightarrow> string" where
  "primaryKeyClause d names =
     ''PRIMARY KEY ( ''
     @ Join (map (\<lambda>name. QuoteStr d @ name @ QuoteStr d) names) '','' @ '' )''"

subsection \<open>Example values\<close>

definition mysqlUri :: Uri where
  "mysqlUri =
     \<lparr>DbType = ''mysql'', Proto = ''tcp'', Host = ''localhost'', Port = ''3306'',
      DbName = ''test'', User = ''root'', Passwd = [], Charset = ''utf8'',
      Laddr = [], Raddr = [], Timeout = 0\<rparr>"

definition mysqlDialect :: Dialect where
  "mysqlDialect =
     \<lparr>URI = Some mysqlUri, QuoteStr = ''`'', SupportEngine = True, SupportCharset = True\<rparr>"

definition postgresDialect :: Dialect where
  "postgresDialect =
     \<lparr>URI = Some (mysqlUri\<lparr>DbType := ''postgres'', Charset := []\<rparr>), QuoteStr = [CHR 0x22],
      SupportEngine = False, SupportCharset = False\<rparr>"

definition mysqlBase :: Base where
  "mysqlBase =
     \<lparr>db = Some (Conn 1), dialect = Some mysqlDialect, driverName = ''mysql'',
      dataSourceName = ''root@/test'', Uri = Some mysqlUri\<rparr>"

definition postgresBase :: Base where
  "postgresBase =
     \<lparr>db = Some (Conn 2), dialect = Some postgresDialect, driverName = ''postgres'',
      dataSourceName = ''dbname=test'', Uri = URI postgresDialect\<rparr>"

definition blankBase :: Base where
  "blankBase =
     \<lparr>db = None, dialect = None, driverName = [], dataSourceName = [], Uri = None\<rparr>"

definition intColumn :: "string \<Rightarrow> bool \<Rightarrow> Column" where
  "intColumn name pk =
     \<lparr>IsPrimaryKey = pk,
      String = (\<lambda>d. QuoteStr d @ name @ QuoteStr d @ '' INT''
                     @ (if pk then '' PRIMARY KEY'' else []) @ '' NOT NULL ''),
      StringNoPk = (\<lambda>d. QuoteStr d @ name @ QuoteStr d @ '' INT NOT NULL '')\<rparr>"

definition textColumn :: "string \<Rightarrow> Column" where
  "textColumn name =
     \<lparr>IsPrimaryKey = False,
      String = (\<lambda>d. QuoteStr d @ name @ QuoteStr d @ '' TEXT NULL ''),
      StringNoPk = (\<lambda>d. QuoteStr d @ name @ QuoteStr d @ '' TEXT NULL '')\<rparr>"

definition usersTable :: Table where
  "usersTable =
     \<lparr>Table.Name = ''users'', PrimaryKeys = [''id''], ColumnsSeq = [''id'', ''name''],
      GetColumn = (\<lambda>n. if n = ''id'' then Some (intColumn ''id'' True)
                       else if n = ''name'' then Some (textColumn ''name'')
                       else None)\<rparr>"

definition membershipTable :: Table where
  "membershipTable =
     \<lparr>Table.Name = ''membership'', PrimaryKeys = [''user_id'', ''group_id''],
      ColumnsSeq = [''user_id'', ''group_id''],
      GetColumn = (\<lambda>n. if n = ''user_id'' then Some (intColumn ''user_id'' True)
                       else if n = ''group_id'' then Some (intColumn ''group_id'' True)
                       else None)\<rparr>"

definition flaggedTable :: Table where
  "flaggedTable =
     \<lparr>Table.Name = ''flagged'', PrimaryKeys = [''a''], ColumnsSeq = [''a'', ''b''],
      GetColumn = (\<lambda>n. if n = ''a'' then Some (intColumn ''a'' False)
                       else if n = ''b'' then Some (intColumn ''b'' True)
                       else None)\<rparr>"

definition emptyTable :: Table where
  "emptyTable =
     \<lparr>Table.Name = ''t'', PrimaryKeys = [], ColumnsSeq = [], GetColumn = (\<lambda>n. None)\<rparr>"

definition nameIndex :: Index where
  "nameIndex = \<lparr>Index.Name = ''name'', Type = UniqueType, Cols = [''name'', ''id'']\<rparr>"

section \<open>Trimming and joining\<close>

lemma set_TrimLeft: "set (TrimLeft s) \<subseteq> set s"
proof (induction s rule: TrimLeft.induct)
  case (1 s)
  show ?case
  proof (cases "leadingSpace s")
    case None
    then show ?thesis by (simp add: TrimLeft.simps [of s])
  next
    case (Some e)
    have "set (drop (length e) s) \<subseteq> set s" by (rule set_drop_subset)
    with "1.IH" [OF Some] Some show ?thesis
      by (auto simp: TrimLeft.simps [of s])
  qed
qed

lemma set_TrimRight: "set (TrimRight s) \<subseteq> set s"
proof (induction s rule: TrimRight.induct)
  case (1 s)
  show ?case
  proof (cases "trailingSpace s")
    case None
    then show ?thesis by (simp add: TrimRight.simps [of s])
  next
    case (Some e)
    have "set (take (length s - length e) s) \<subseteq> set s" by (rule set_take_subset)
    with "1.IH" [OF Some] Some show ?thesis
      by (auto simp: TrimRight.simps [of s])
  qed
qed

lemma set_TrimSpace: "set (TrimSpace s) \<subseteq> set s"
  unfolding TrimSpace_def using set_TrimRight [of "TrimLeft s"] set_TrimLeft [of s] by blast

lemma TrimRight_Nil: "TrimRight [] = []"
  using set_TrimRight [of "[]"] by simp

lemma leadingSpace_C: "leadingSpace (CHR ''C'' # s) = None"
  by (simp add: leadingSpace_def whiteSpace_def)

lemma TrimLeft_C: "TrimLeft (CHR ''C'' # s) = CHR ''C'' # s"
  by (simp add: TrimLeft.simps [of "CHR ''C'' # s"] leadingSpace_C)

lemma suffix_boundary:
  assumes "c \<notin> set e \<or> (c \<notin> set (butlast e) \<and> r \<noteq> [])"
  shows "suffix e (a @ c # r) \<longleftrightarrow> suffix e r"
  using assms by (auto simp: suffix_append suffix_Cons butlast_append)

lemma trailingSpace_boundary:
  assumes "\<forall>e\<in>set whiteSpace. c \<notin> set e \<or> (c \<notin> set (butlast e) \<and> r \<noteq> [])"
  shows "trailingSpace (a @ c # r) = trailingSpace r"
  unfolding trailingSpace_def
  by (rule find_cong) (use assms in \<open>auto simp: suffix_boundary\<close>)

lemma TrimRight_boundary:
  assumes "(\<forall>e\<in>set whiteSpace. c \<notin> set e) \<or>
           ((\<forall>e\<in>set whiteSpace. c \<notin> set (butlast e)) \<and> TrimRight r \<noteq> [])"
  shows "TrimRight (a @ c # r) = a @ c # TrimRight r"
  using assms
proof (induction r rule: TrimRight.induct)
  case (1 s)
  have ne: "TrimRight s \<noteq> [] \<Longrightarrow> s \<noteq> []"
    using TrimRight_Nil by auto
  have ts: "trailingSpace (a @ c # s) = trailingSpace s"
    by (rule trailingSpace_boundary) (use "1.prems" ne in blast)
  show ?case
  proof (cases "trailingSpace s")
    case None
    with ts show ?thesis
      by (simp add: TrimRight.simps [of s] TrimRight.simps [of "a @ c # s"])
  next
    case (Some e)
    then have "suffix e s" by (simp add: trailingSpace_Some)
    then have len: "length e \<le> length s" by (rule suffix_length_le)
    let ?s' = "take (length s - length e) s"
    have eq: "TrimRight s = TrimRight ?s'"
      using Some by (simp add: TrimRight.simps [of s])
    have "TrimRight (a @ c # s) = TrimRight (take (length (a @ c # s) - length e) (a @ c # s))"
      using ts Some by (simp add: TrimRight.simps [of "a @ c # s"])
    also have "take (length (a @ c # s) - length e) (a @ c # s) = a @ c # ?s'"
      using len by (simp add: Suc_diff_le)
    also have "TrimRight (a @ c # ?s') = a @ c # TrimRight ?s'"
      using "1.IH" [OF Some] "1.prems" eq by simp
    finally show ?thesis using eq by simp
  qed
qed

lemma paren_not_space: "\<forall>e\<in>set whiteSpace. CHR ''('' \<notin> set e"
  by (simp add: whiteSpace_def)

lemma blank_not_inner: "\<forall>e\<in>set whiteSpace. CHR '' '' \<notin> set (butlast e)"
  by (simp add: whiteSpace_def)

lemma TrimSpace_header:
  "TrimSpace (''CREATE TABLE IF NOT EXISTS '' @ qn @ '' ('' @ x) =
     ''CREATE TABLE IF NOT EXISTS '' @ qn @ '' ('' @ TrimRight x"
proof -
  let ?a = "''CREATE TABLE IF NOT EXISTS '' @ qn @ '' ''"
  have split: "\<And>y. ''CREATE TABLE IF NOT EXISTS '' @ qn @ '' ('' @ y = ?a @ CHR ''('' # y"
    by simp
  have "TrimLeft (?a @ CHR ''('' # x) = ?a @ CHR ''('' # x"
    using TrimLeft_C by simp
  moreover have "TrimRight (?a @ CHR ''('' # x) = ?a @ CHR ''('' # TrimRight x"
    by (rule TrimRight_boundary) (simp add: paren_not_space)
  ultimately show ?thesis
    unfolding TrimSpace_def split by simp
qed

lemma Join_quoted:
  "names \<noteq> [] \<Longrightarrow> q @ Join names (q @ sep @ q) @ q = Join (map (\<lambda>n. q @ n @ q) names) sep"
  by (induction names "q @ sep @ q" rule: Join.induct) simp_all

section \<open>The column loop\<close>

lemma columns_loop:
  assumes "map (GetColumn table) names = map Some cols"
  shows "CreateTableSql_columns d table names (''CREATE TABLE IF NOT EXISTS '' @ qn @ '' ('' @ acc) =
      Inr (''CREATE TABLE IF NOT EXISTS '' @ qn @ '' ('' @ appendDefs acc (map (columnDef d table) cols))"
  using assms
proof (induction names arbitrary: cols acc)
  case Nil
  then show ?case by simp
next
  case (Cons n names)
  then obtain col cols' where cols: "cols = col # cols'" and col: "GetColumn table n = Some col"
    and rest: "map (GetColumn table) names = map Some cols'"
    by (cases cols) auto
  let ?h = "''CREATE TABLE IF NOT EXISTS '' @ qn @ '' (''"
  have step: "TrimSpace ((?h @ acc) @ columnDef d table col) @ '', '' =
        ?h @ (TrimRight (acc @ columnDef d table col) @ '', '')"
    using TrimSpace_header [of qn "acc @ columnDef d table col"] by simp
  have "CreateTableSql_columns d table (n # names) (?h @ acc) =
        CreateTableSql_columns d table names (TrimSpace ((?h @ acc) @ columnDef d table col) @ '', '')"
    using col by (simp add: columnDef_def Let_def del: append_assoc)
  also have "\<dots> = CreateTableSql_columns d table names (?h @ (TrimRight (acc @ columnDef d table col) @ '', ''))"
    by (simp only: step)
  also have "\<dots> = Inr (?h @ appendDefs (TrimRight (acc @ columnDef d table col) @ '', '') (map (columnDef d table) cols'))"
    using Cons.IH [OF rest] by simp
  finally show ?case by (simp add: cols)
qed

lemma appendDefs_nonblank:
  assumes "\<forall>r\<in>set rs. TrimRight r \<noteq> []" and "acc = [] \<or> last acc = CHR '' ''"
  shows "appendDefs acc rs = acc @ concat (map (\<lambda>r. TrimRight r @ '', '') rs)"
  using assms
proof (induction rs arbitrary: acc)
  case Nil
  then show ?case by simp
next
  case (Cons r rs)
  have tr: "TrimRight (acc @ r) = acc @ TrimRight r"
  proof (cases "acc = []")
    case True
    then show ?thesis by simp
  next
    case False
    with Cons.prems obtain a where acc: "acc = a @ [CHR '' '']"
      by (metis append_butlast_last_id)
    have "TrimRight (a @ CHR '' '' # r) = a @ CHR '' '' # TrimRight r"
      by (rule TrimRight_boundary) (use Cons.prems blank_not_inner in simp)
    then show ?thesis by (simp add: acc)
  qed
  have "appendDefs (TrimRight (acc @ r) @ '', '') rs =
        (TrimRight (acc @ r) @ '', '') @ concat (map (\<lambda>r. TrimRight r @ '', '') rs)"
    by (rule Cons.IH) (use Cons.prems in simp_all)
  then show ?case by (simp add: tr)
qed

lemma appendDefs_ends:
  "rs \<noteq> [] \<Longrightarrow> \<exists>t. appendDefs acc rs = t @ '', ''"
proof (induction rs arbitrary: acc)
  case Nil
  then show ?case by simp
next
  case (Cons r rs)
  show ?case
  proof (cases "rs = []")
    case True
    then show ?thesis by simp
  next
    case False
    then show ?thesis using Cons.IH by simp
  qed
qed


section \<open>The text that CreateTableSql returns\<close>

lemma sliceTo_drop2:
  "2 \<le> length s \<Longrightarrow> sliceTo s (int (length s) - 2) = Inr (take (length s - 2) s)"
  by (simp add: sliceTo_def nat_diff_distrib')

lemma Base_Quote_bound: "dialect b = Some d \<Longrightarrow> Base_Quote b c = Inr (QuoteStr d @ c @ QuoteStr d)"
  by (simp add: Base_Quote_def)

lemma CreateTableSql_explicit:
  assumes d: "dialect b = Some d"
    and cols: "map (GetColumn table) (ColumnsSeq table) = map Some cols"
    and uri: "SupportCharset d \<and> charset = [] \<longrightarrow> URI d \<noteq> None"
  shows "Base_CreateTableSql b table tableName storeEngine charset =
     Inr (take (length (tableHeader d table tableName
                 @ appendDefs [] (map (columnDef d table) cols)
                 @ (if 1 < length (PrimaryKeys table)
                    then ''PRIMARY KEY ( '' @ QuoteStr d
                         @ Join (PrimaryKeys table) (QuoteStr d @ '','' @ QuoteStr d)
                         @ QuoteStr d @ '' ), ''
                    else [])) - 2)
            (tableHeader d table tableName
                 @ appendDefs [] (map (columnDef d table) cols)
                 @ (if 1 < length (PrimaryKeys table)
                    then ''PRIMARY KEY ( '' @ QuoteStr d
                         @ Join (PrimaryKeys table) (QuoteStr d @ '','' @ QuoteStr d)
                         @ QuoteStr d @ '' ), ''
                    else []))
          @ '')'' @ tableOptions d storeEngine charset @ '';'')"
proof -
  define tn where "tn = (if tableName = [] then Table.Name table else tableName)"
  define qn where "qn = QuoteStr d @ tn @ QuoteStr d"
  define defs where "defs = appendDefs [] (map (columnDef d table) cols)"
  define pk where "pk = (if 1 < length (PrimaryKeys table)
                    then ''PRIMARY KEY ( '' @ QuoteStr d
                         @ Join (PrimaryKeys table) (QuoteStr d @ '','' @ QuoteStr d)
                         @ QuoteStr d @ '' ), ''
                    else [])"
  define sql3 where "sql3 = ''CREATE TABLE IF NOT EXISTS '' @ qn @ '' ('' @ defs @ pk"
  have quote: "\<And>c. Base_Quote b c = Inr (QuoteStr d @ c @ QuoteStr d)"
    by (simp add: Base_Quote_bound d)
  have loop: "CreateTableSql_columns d table (ColumnsSeq table)
                (''CREATE TABLE IF NOT EXISTS '' @ qn @ '' ('') =
              Inr (''CREATE TABLE IF NOT EXISTS '' @ qn @ '' ('' @ defs)"
    using columns_loop [OF cols, of d qn "[]"] by (simp add: defs_def)
  have withpk: "(if 1 < length (PrimaryKeys table)
             then Inr ((''CREATE TABLE IF NOT EXISTS '' @ qn @ '' ('' @ defs) @ ''PRIMARY KEY ( ''
                       @ (QuoteStr d @ Join (PrimaryKeys table) (QuoteStr d @ '','' @ QuoteStr d) @ QuoteStr d)
                       @ '' ), '')
             else Inr (''CREATE TABLE IF NOT EXISTS '' @ qn @ '' ('' @ defs)) = (Inr sql3 :: error + string)"
    by (simp add: sql3_def pk_def)
  have len: "2 \<le> length sql3"
    by (simp add: sql3_def)
  have slice: "sliceTo sql3 (int (length sql3) - 2) = Inr (take (length sql3 - 2) sql3)"
    using len by (rule sliceTo_drop2)
  have "Base_CreateTableSql b table tableName storeEngine charset =
     Inr (take (length sql3 - 2) sql3 @ '')'' @ tableOptions d storeEngine charset @ '';'')"
    unfolding Base_CreateTableSql_def Let_def
    apply (simp only: quote d tn_def [symmetric] qn_def [symmetric] sum.case option.case loop)
    apply (simp only: withpk sum.case slice)
    using uri apply (auto simp add: tableOptions_def Let_def simp del: append_assoc split: option.splits)
    done
  then show ?thesis
    by (simp only: sql3_def qn_def tn_def defs_def pk_def tableHeader_def append_assoc)
qed

lemma take_separator: "take (length (a @ '', '') - 2) (a @ '', '') = a"
  by simp

lemma take_after_header:
  "2 \<le> length x \<Longrightarrow> take (length (h @ x) - 2) (h @ x) = h @ take (length x - 2) x"
  by simp

lemma concat_sep_Join:
  "xs \<noteq> [] \<Longrightarrow> concat (map (\<lambda>x. x @ sep) xs) = Join xs sep @ sep"
  by (induction xs sep rule: Join.induct) simp_all

text \<open>
  Claim C1, as amended: for a table with exactly one primary-key name, the output has no
  trailing \<open>PRIMARY KEY ( ... )\<close> clause, and the inline form is used for exactly the
  columns whose \<open>IsPrimaryKey\<close> flag is set, whether or not the primary-key list names
  them; for a table with two or more primary-key names the output has exactly one
  trailing clause, which lists the primary-key names, all and only them, in their
  declared order, and no column has the inline form. Stated for an adapter whose dialect
  is bound and a table whose column names all resolve: with one name the text before the
  closing parenthesis is the header and the column text, without the last separator,
  and nothing else; with two or more every column has the form without primary-key
  markers and the clause, with each name quoted, stands between the column text and the
  closing parenthesis.
\<close>

theorem CreateTableSql_primary_key_clause:
  assumes "dialect b = Some d"
    and "map (GetColumn table) (ColumnsSeq table) = map Some cols"
    and "SupportCharset d \<and> charset = [] \<longrightarrow> URI d \<noteq> None"
  shows "(length (PrimaryKeys table) = 1 \<longrightarrow>
            Base_CreateTableSql b table tableName storeEngine charset =
              Inr (withoutSeparator
                     (tableHeader d table tableName
                      @ appendDefs [] (map (\<lambda>col. if IsPrimaryKey col then String col d
                                                 else StringNoPk col d) cols))
                   @ '')'' @ tableOptions d storeEngine charset @ '';'')) \<and>
         (2 \<le> length (PrimaryKeys table) \<longrightarrow>
            Base_CreateTableSql b table tableName storeEngine charset =
              Inr (tableHeader d table tableName
                   @ appendDefs [] (map (\<lambda>col. StringNoPk col d) cols)
                   @ ''PRIMARY KEY ( ''
                   @ Join (map (\<lambda>name. QuoteStr d @ name @ QuoteStr d) (PrimaryKeys table)) '',''
                   @ '' )''
                   @ '')'' @ tableOptions d storeEngine charset @ '';''))"
proof (intro conjI impI)
  assume one: "length (PrimaryKeys table) = 1"
  then have defs: "columnDef d table = (\<lambda>col. if IsPrimaryKey col then String col d else StringNoPk col d)"
    by (simp add: columnDef_def fun_eq_iff)
  show "Base_CreateTableSql b table tableName storeEngine charset =
              Inr (withoutSeparator
                     (tableHeader d table tableName
                      @ appendDefs [] (map (\<lambda>col. if IsPrimaryKey col then String col d
                                                 else StringNoPk col d) cols))
                   @ '')'' @ tableOptions d storeEngine charset @ '';'')"
    using CreateTableSql_explicit [OF assms, of tableName storeEngine] one
    by (simp add: defs withoutSeparator_def)
next
  assume many: "2 \<le> length (PrimaryKeys table)"
  then have defs: "columnDef d table = (\<lambda>col. StringNoPk col d)"
    by (simp add: columnDef_def fun_eq_iff)
  from many have ne: "PrimaryKeys table \<noteq> []"
    by auto
  let ?text = "tableHeader d table tableName
                   @ appendDefs [] (map (\<lambda>col. StringNoPk col d) cols)
                   @ ''PRIMARY KEY ( ''
                   @ Join (map (\<lambda>name. QuoteStr d @ name @ QuoteStr d) (PrimaryKeys table)) '',''
                   @ '' )''"
  have full: "tableHeader d table tableName
                 @ appendDefs [] (map (columnDef d table) cols)
                 @ (if 1 < length (PrimaryKeys table)
                    then ''PRIMARY KEY ( '' @ QuoteStr d
                         @ Join (PrimaryKeys table) (QuoteStr d @ '','' @ QuoteStr d)
                         @ QuoteStr d @ '' ), ''
                    else []) = ?text @ '', ''"
    using many Join_quoted [OF ne, of "QuoteStr d" "'',''"]
    by (simp add: defs)
  have "Base_CreateTableSql b table tableName storeEngine charset =
          Inr (?text @ '')'' @ tableOptions d storeEngine charset @ '';'')"
    using CreateTableSql_explicit [OF assms, of tableName storeEngine]
    by (simp only: full take_separator)
  then show "Base_CreateTableSql b table tableName storeEngine charset =
              Inr (tableHeader d table tableName
                   @ appendDefs [] (map (\<lambda>col. StringNoPk col d) cols)
                   @ ''PRIMARY KEY ( ''
                   @ Join (map (\<lambda>name. QuoteStr d @ name @ QuoteStr d) (PrimaryKeys table)) '',''
                   @ '' )''
                   @ '')'' @ tableOptions d storeEngine charset @ '';'')"
    by (simp only: append_assoc)
qed

theorem CreateTableSql_primary_key_clause_witness:
  "Base_CreateTableSql mysqlBase usersTable [] [] [] =
     Inr ''CREATE TABLE IF NOT EXISTS `users` (`id` INT PRIMARY KEY NOT NULL, `name` TEXT NULL) DEFAULT CHARSET utf8;'' \<and>
   Base_CreateTableSql mysqlBase membershipTable [] [] [] =
     Inr ''CREATE TABLE IF NOT EXISTS `membership` (`user_id` INT NOT NULL, `group_id` INT NOT NULL, PRIMARY KEY ( `user_id`,`group_id` )) DEFAULT CHARSET utf8;''"
proof -
  have d: "dialect mysqlBase = Some mysqlDialect"
    by (simp add: mysqlBase_def)
  have u: "SupportCharset mysqlDialect \<and> ([]::string) = [] \<longrightarrow> URI mysqlDialect \<noteq> None"
    by (simp add: mysqlDialect_def)
  have users: "map (GetColumn usersTable) (ColumnsSeq usersTable) =
                 map Some [intColumn ''id'' True, textColumn ''name'']"
    by (simp add: usersTable_def)
  have members: "map (GetColumn membershipTable) (ColumnsSeq membershipTable) =
                 map Some [intColumn ''user_id'' True, intColumn ''group_id'' True]"
    by (simp add: membershipTable_def)
  have one: "length (PrimaryKeys usersTable) = 1"
    by (simp add: usersTable_def)
  have two: "2 \<le> length (PrimaryKeys membershipTable)"
    by (simp add: membershipTable_def)
  have trims: "TrimRight ''`id` INT PRIMARY KEY NOT NULL '' = ''`id` INT PRIMARY KEY NOT NULL''"
    "TrimRight ''`id` INT PRIMARY KEY NOT NULL, `name` TEXT NULL '' = ''`id` INT PRIMARY KEY NOT NULL, `name` TEXT NULL''"
    "TrimRight ''`user_id` INT NOT NULL '' = ''`user_id` INT NOT NULL''"
    "TrimRight ''`user_id` INT NOT NULL, `group_id` INT NOT NULL '' = ''`user_id` INT NOT NULL, `group_id` INT NOT NULL''"
    by code_simp+
  from CreateTableSql_primary_key_clause [OF d users u, of "[]" "[]"] one
  have "Base_CreateTableSql mysqlBase usersTable [] [] [] =
     Inr ''CREATE TABLE IF NOT EXISTS `users` (`id` INT PRIMARY KEY NOT NULL, `name` TEXT NULL) DEFAULT CHARSET utf8;''"
    by (simp add: tableHeader_def tableOptions_def mysqlDialect_def mysqlUri_def usersTable_def
        intColumn_def textColumn_def trims withoutSeparator_def)
  moreover from CreateTableSql_primary_key_clause [OF d members u, of "[]" "[]"] two
  have "Base_CreateTableSql mysqlBase membershipTable [] [] [] =
     Inr ''CREATE TABLE IF NOT EXISTS `membership` (`user_id` INT NOT NULL, `group_id` INT NOT NULL, PRIMARY KEY ( `user_id`,`group_id` )) DEFAULT CHARSET utf8;''"
    by (simp add: tableHeader_def tableOptions_def mysqlDialect_def mysqlUri_def membershipTable_def
        intColumn_def trims)
  ultimately show ?thesis ..
qed

text \<open>
  The claim as stated fails: the code chooses the inline form by the flag of the column
  and never looks for the column in the primary-key list. For a table whose one
  primary-key name is \<open>a\<close>, whose column \<open>a\<close> is not flagged and whose column \<open>b\<close> is, the
  column named in the list has the form without primary-key markers and the other
  column has the inline form.
\<close>

theorem CreateTableSql_inline_form_follows_flag:
  "PrimaryKeys flaggedTable = [''a''] \<and>
   Base_CreateTableSql mysqlBase flaggedTable [] [] [] =
     Inr ''CREATE TABLE IF NOT EXISTS `flagged` (`a` INT NOT NULL, `b` INT PRIMARY KEY NOT NULL) DEFAULT CHARSET utf8;''"
proof
  show "PrimaryKeys flaggedTable = [''a'']"
    by (simp add: flaggedTable_def)
  show "Base_CreateTableSql mysqlBase flaggedTable [] [] [] =
     Inr ''CREATE TABLE IF NOT EXISTS `flagged` (`a` INT NOT NULL, `b` INT PRIMARY KEY NOT NULL) DEFAULT CHARSET utf8;''"
    by code_simp
qed

text \<open>
  Claim C3: the output contains a \<open>DEFAULT CHARSET\<close> clause exactly when the dialect
  reports support for it and the charset argument or, when that is empty, the charset of
  the URI is not empty; the clause names the argument when it is not empty and the
  charset of the URI otherwise. It contains an \<open>ENGINE=\<close> clause exactly when the dialect
  reports support for it and the engine argument is not empty. The text up to the
  closing parenthesis does not depend on the two arguments; what follows it is the
  engine clause or nothing, the charset clause or nothing, and the semicolon.
\<close>

theorem CreateTableSql_engine_charset_clauses:
  assumes "dialect b = Some d" and "URI d = Some u"
    and "map (GetColumn table) (ColumnsSeq table) = map Some cols"
  shows "\<exists>body. \<forall>storeEngine charset.
           Base_CreateTableSql b table tableName storeEngine charset =
             Inr (body @ '')''
                  @ (if SupportEngine d \<and> storeEngine \<noteq> []
                     then '' ENGINE='' @ storeEngine else [])
                  @ (if SupportCharset d \<and> (charset \<noteq> [] \<or> charset = [] \<and> Charset u \<noteq> [])
                     then '' DEFAULT CHARSET '' @ (if charset \<noteq> [] then charset else Charset u)
                     else [])
                  @ '';'')"
proof -
  have uri: "\<And>charset. SupportCharset d \<and> charset = [] \<longrightarrow> URI d \<noteq> None"
    using assms(2) by simp
  have opts: "\<And>storeEngine charset. tableOptions d storeEngine charset =
        (if SupportEngine d \<and> storeEngine \<noteq> [] then '' ENGINE='' @ storeEngine else [])
        @ (if SupportCharset d \<and> (charset \<noteq> [] \<or> charset = [] \<and> Charset u \<noteq> [])
           then '' DEFAULT CHARSET '' @ (if charset \<noteq> [] then charset else Charset u)
           else [])"
    using assms(2) by (simp add: tableOptions_def)
  have "\<And>storeEngine charset.
           Base_CreateTableSql b table tableName storeEngine charset =
             Inr (take (length (tableHeader d table tableName
                 @ appendDefs [] (map (columnDef d table) cols)
                 @ (if 1 < length (PrimaryKeys table)
                    then ''PRIMARY KEY ( '' @ QuoteStr d
                         @ Join (PrimaryKeys table) (QuoteStr d @ '','' @ QuoteStr d)
                         @ QuoteStr d @ '' ), ''
                    else [])) - 2)
            (tableHeader d table tableName
                 @ appendDefs [] (map (columnDef d table) cols)
                 @ (if 1 < length (PrimaryKeys table)
                    then ''PRIMARY KEY ( '' @ QuoteStr d
                         @ Join (PrimaryKeys table) (QuoteStr d @ '','' @ QuoteStr d)
                         @ QuoteStr d @ '' ), ''
                    else [])) @ '')''
                  @ (if SupportEngine d \<and> storeEngine \<noteq> []
                     then '' ENGINE='' @ storeEngine else [])
                  @ (if SupportCharset d \<and> (charset \<noteq> [] \<or> charset = [] \<and> Charset u \<noteq> [])
                     then '' DEFAULT CHARSET '' @ (if charset \<noteq> [] then charset else Charset u)
                     else [])
                  @ '';'')"
    using CreateTableSql_explicit [OF assms(1) assms(3) uri]
    by (simp only: opts append_assoc)
  then show ?thesis
    by blast
qed

theorem CreateTableSql_engine_charset_clauses_witness:
  "\<exists>body. \<forall>storeEngine charset.
      Base_CreateTableSql mysqlBase usersTable [] storeEngine charset =
        Inr (body @ '')''
             @ (if storeEngine \<noteq> [] then '' ENGINE='' @ storeEngine else [])
             @ '' DEFAULT CHARSET '' @ (if charset \<noteq> [] then charset else ''utf8'')
             @ '';'')"
proof -
  have d: "dialect mysqlBase = Some mysqlDialect"
    by (simp add: mysqlBase_def)
  have u: "URI mysqlDialect = Some mysqlUri"
    by (simp add: mysqlDialect_def)
  have cols: "map (GetColumn usersTable) (ColumnsSeq usersTable) =
                map Some [intColumn ''id'' True, textColumn ''name'']"
    by (simp add: usersTable_def)
  from CreateTableSql_engine_charset_clauses [OF d u cols, of "[]"]
  obtain body where body: "\<forall>storeEngine charset.
           Base_CreateTableSql mysqlBase usersTable [] storeEngine charset =
             Inr (body @ '')''
                  @ (if SupportEngine mysqlDialect \<and> storeEngine \<noteq> []
                     then '' ENGINE='' @ storeEngine else [])
                  @ (if SupportCharset mysqlDialect
                        \<and> (charset \<noteq> [] \<or> charset = [] \<and> Charset mysqlUri \<noteq> [])
                     then '' DEFAULT CHARSET '' @ (if charset \<noteq> [] then charset else Charset mysqlUri)
                     else [])
                  @ '';'')"
    by blast
  show ?thesis
    by (rule exI [of _ body]) (simp add: body mysqlDialect_def mysqlUri_def)
qed

text \<open>
  Claim C9: for a table with no columns and fewer than two primary-key names,
  \<open>CreateTableSql\<close> does not panic: the slice that drops the last two characters is in
  bounds (it removes the opening parenthesis and the space before it), and the call
  returns a string, which is not well-formed SQL. The adapter has a dialect, and the
  dialect has a URI where the code reads its charset.
\<close>

theorem CreateTableSql_no_columns:
  assumes "dialect b = Some d"
    and "ColumnsSeq table = []" and "length (PrimaryKeys table) < 2"
    and "SupportCharset d \<and> charset = [] \<longrightarrow> URI d \<noteq> None"
  shows "sliceTo (tableHeader d table tableName) (int (length (tableHeader d table tableName)) - 2) =
           Inr (''CREATE TABLE IF NOT EXISTS ''
                @ QuoteStr d @ (if tableName = [] then Table.Name table else tableName) @ QuoteStr d) \<and>
         Base_CreateTableSql b table tableName storeEngine charset =
           Inr (''CREATE TABLE IF NOT EXISTS ''
                @ QuoteStr d @ (if tableName = [] then Table.Name table else tableName) @ QuoteStr d
                @ '')'' @ tableOptions d storeEngine charset @ '';'')"
proof -
  have cols: "map (GetColumn table) (ColumnsSeq table) = map Some []"
    using assms(2) by simp
  have "sliceTo (tableHeader d table tableName) (int (length (tableHeader d table tableName)) - 2) =
          Inr (take (length (tableHeader d table tableName) - 2) (tableHeader d table tableName))"
    by (rule sliceTo_drop2) (simp add: tableHeader_def)
  then have one: "sliceTo (tableHeader d table tableName) (int (length (tableHeader d table tableName)) - 2) =
           Inr (''CREATE TABLE IF NOT EXISTS ''
                @ QuoteStr d @ (if tableName = [] then Table.Name table else tableName) @ QuoteStr d)"
    by (simp add: tableHeader_def)
  have two: "Base_CreateTableSql b table tableName storeEngine charset =
           Inr (''CREATE TABLE IF NOT EXISTS ''
                @ QuoteStr d @ (if tableName = [] then Table.Name table else tableName) @ QuoteStr d
                @ '')'' @ tableOptions d storeEngine charset @ '';'')"
    using CreateTableSql_explicit [OF assms(1) cols assms(4), of tableName storeEngine] assms(3)
    by (simp add: tableHeader_def)
  from one two show ?thesis ..
qed

theorem CreateTableSql_no_columns_witness:
  "dialect mysqlBase = Some mysqlDialect \<and>
   ColumnsSeq emptyTable = [] \<and> length (PrimaryKeys emptyTable) < 2 \<and>
   URI mysqlDialect \<noteq> None \<and>
   Base_CreateTableSql mysqlBase emptyTable [] ''InnoDB'' [] =
     Inr ''CREATE TABLE IF NOT EXISTS `t`) ENGINE=InnoDB DEFAULT CHARSET utf8;''"
proof -
  have d: "dialect mysqlBase = Some mysqlDialect"
    by (simp add: mysqlBase_def)
  have c: "ColumnsSeq emptyTable = []" and p: "length (PrimaryKeys emptyTable) < 2"
    by (simp_all add: emptyTable_def)
  have u: "URI mysqlDialect \<noteq> None"
    by (simp add: mysqlDialect_def)
  then have u': "SupportCharset mysqlDialect \<and> ([]::string) = [] \<longrightarrow> URI mysqlDialect \<noteq> None"
    by simp
  from CreateTableSql_no_columns [OF d c p u', of "[]" "''InnoDB''"]
  have "Base_CreateTableSql mysqlBase emptyTable [] ''InnoDB'' [] =
     Inr ''CREATE TABLE IF NOT EXISTS `t`) ENGINE=InnoDB DEFAULT CHARSET utf8;''"
    by (simp add: tableOptions_def mysqlDialect_def mysqlUri_def emptyTable_def)
  with d c p u show ?thesis by simp
qed

text \<open>
  Claim C7, as amended: for every table with at least one column or at least two
  primary-key names, the output has its parts in a fixed order: the header
  \<open>CREATE TABLE IF NOT EXISTS\<close>, the quoted name and the opening parenthesis; the column
  definitions in the declared column order; the composite \<open>PRIMARY KEY\<close> clause when
  there are two or more primary-key names; the closing parenthesis; the \<open>ENGINE\<close> clause
  when present; the charset clause when present; the semicolon. The column text is built
  in column order: a rendering is appended, trailing white space is removed from the
  text accumulated after the header, and the separator is appended; the last separator
  is dropped. When no rendering is blank, the text between the parentheses is the
  renderings, each without its trailing white space, in column order, then the clause,
  joined by the separator. Stated for an adapter whose dialect is bound and has a URI,
  and a table whose column names all resolve.
\<close>

theorem CreateTableSql_clause_order:
  assumes "dialect b = Some d" and "URI d = Some u"
    and "map (GetColumn table) (ColumnsSeq table) = map Some cols"
    and "cols \<noteq> [] \<or> 2 \<le> length (PrimaryKeys table)"
  shows "Base_CreateTableSql b table tableName storeEngine charset =
           Inr (''CREATE TABLE IF NOT EXISTS ''
                @ QuoteStr d @ (if tableName = [] then Table.Name table else tableName) @ QuoteStr d
                @ '' (''
                @ withoutSeparator
                    (appendDefs [] (map (columnDef d table) cols)
                     @ (if 2 \<le> length (PrimaryKeys table)
                        then primaryKeyClause d (PrimaryKeys table) @ '', '' else []))
                @ '')''
                @ (if SupportEngine d \<and> storeEngine \<noteq> [] then '' ENGINE='' @ storeEngine else [])
                @ (if SupportCharset d \<and> (charset \<noteq> [] \<or> Charset u \<noteq> [])
                   then '' DEFAULT CHARSET '' @ (if charset \<noteq> [] then charset else Charset u)
                   else [])
                @ '';'') \<and>
         ((\<forall>col\<in>set cols. TrimRight (columnDef d table col) \<noteq> []) \<longrightarrow>
            withoutSeparator
              (appendDefs [] (map (columnDef d table) cols)
               @ (if 2 \<le> length (PrimaryKeys table)
                  then primaryKeyClause d (PrimaryKeys table) @ '', '' else []))
            = Join (map (\<lambda>col. TrimRight (columnDef d table col)) cols
                    @ (if 2 \<le> length (PrimaryKeys table)
                       then [primaryKeyClause d (PrimaryKeys table)] else []))
                 '', '')"
proof -
  define defs where "defs = appendDefs [] (map (columnDef d table) cols)"
  define clause where "clause = primaryKeyClause d (PrimaryKeys table)"
  define pk where "pk = (if 2 \<le> length (PrimaryKeys table) then clause @ '', '' else [])"
  have uri: "SupportCharset d \<and> charset = [] \<longrightarrow> URI d \<noteq> None"
    using assms(2) by simp
  have opts: "tableOptions d storeEngine charset =
        (if SupportEngine d \<and> storeEngine \<noteq> [] then '' ENGINE='' @ storeEngine else [])
        @ (if SupportCharset d \<and> (charset \<noteq> [] \<or> Charset u \<noteq> [])
           then '' DEFAULT CHARSET '' @ (if charset \<noteq> [] then charset else Charset u)
           else [])"
    using assms(2) by (auto simp add: tableOptions_def)
  have pk_eq: "(if 1 < length (PrimaryKeys table)
                    then ''PRIMARY KEY ( '' @ QuoteStr d
                         @ Join (PrimaryKeys table) (QuoteStr d @ '','' @ QuoteStr d)
                         @ QuoteStr d @ '' ), ''
                    else []) = pk"
  proof (cases "2 \<le> length (PrimaryKeys table)")
    case True
    then have "PrimaryKeys table \<noteq> []" by auto
    from Join_quoted [OF this, of "QuoteStr d" "'',''"] True show ?thesis
      by (simp add: pk_def clause_def primaryKeyClause_def)
  next
    case False
    then show ?thesis by (simp add: pk_def)
  qed
  have long: "2 \<le> length (defs @ pk)"
  proof (cases "2 \<le> length (PrimaryKeys table)")
    case True
    then show ?thesis by (simp add: pk_def)
  next
    case False
    with assms(4) have "map (columnDef d table) cols \<noteq> []" by simp
    from appendDefs_ends [OF this, of "[]"] obtain t where "defs = t @ '', ''"
      unfolding defs_def by blast
    then show ?thesis by simp
  qed
  have "Base_CreateTableSql b table tableName storeEngine charset =
      Inr (take (length (tableHeader d table tableName @ defs @ pk) - 2)
             (tableHeader d table tableName @ defs @ pk)
           @ '')'' @ tableOptions d storeEngine charset @ '';'')"
    using CreateTableSql_explicit [OF assms(1) assms(3) uri, of tableName storeEngine]
    by (simp only: pk_eq defs_def)
  also have "take (length (tableHeader d table tableName @ defs @ pk) - 2)
             (tableHeader d table tableName @ defs @ pk) =
             tableHeader d table tableName @ withoutSeparator (defs @ pk)"
    unfolding withoutSeparator_def using long by (rule take_after_header)
  finally have first: "Base_CreateTableSql b table tableName storeEngine charset =
      Inr (''CREATE TABLE IF NOT EXISTS ''
                @ QuoteStr d @ (if tableName = [] then Table.Name table else tableName) @ QuoteStr d
                @ '' (''
                @ withoutSeparator (defs @ pk)
                @ '')''
                @ (if SupportEngine d \<and> storeEngine \<noteq> [] then '' ENGINE='' @ storeEngine else [])
                @ (if SupportCharset d \<and> (charset \<noteq> [] \<or> Charset u \<noteq> [])
                   then '' DEFAULT CHARSET '' @ (if charset \<noteq> [] then charset else Charset u)
                   else [])
                @ '';'')"
    by (simp only: opts tableHeader_def append_assoc)
  have second: "withoutSeparator (defs @ pk) =
      Join (map (\<lambda>col. TrimRight (columnDef d table col)) cols
            @ (if 2 \<le> length (PrimaryKeys table) then [clause] else [])) '', ''"
    if nonblank: "\<forall>col\<in>set cols. TrimRight (columnDef d table col) \<noteq> []"
  proof -
    let ?items = "map (\<lambda>col. TrimRight (columnDef d table col)) cols
            @ (if 2 \<le> length (PrimaryKeys table) then [clause] else [])"
    have "defs = [] @ concat (map (\<lambda>r. TrimRight r @ '', '') (map (columnDef d table) cols))"
      unfolding defs_def by (rule appendDefs_nonblank) (use nonblank in simp_all)
    then have "defs @ pk = concat (map (\<lambda>x. x @ '', '') ?items)"
      by (simp add: pk_def comp_def)
    moreover have "?items \<noteq> []"
      using assms(4) by auto
    then have "concat (map (\<lambda>x. x @ '', '') ?items) = Join ?items '', '' @ '', ''"
      by (rule concat_sep_Join)
    ultimately have "defs @ pk = Join ?items '', '' @ '', ''"
      by (rule trans)
    then show ?thesis
      by (simp only: withoutSeparator_def take_separator)
  qed
  from first second show ?thesis
    unfolding defs_def pk_def clause_def by blast
qed

theorem CreateTableSql_clause_order_witness:
  "Base_CreateTableSql mysqlBase membershipTable ''members'' ''InnoDB'' ''latin1'' =
     Inr ''CREATE TABLE IF NOT EXISTS `members` (`user_id` INT NOT NULL, `group_id` INT NOT NULL, PRIMARY KEY ( `user_id`,`group_id` )) ENGINE=InnoDB DEFAULT CHARSET latin1;''"
proof -
  have d: "dialect mysqlBase = Some mysqlDialect"
    by (simp add: mysqlBase_def)
  have u: "URI mysqlDialect = Some mysqlUri"
    by (simp add: mysqlDialect_def)
  have members: "map (GetColumn membershipTable) (ColumnsSeq membershipTable) =
                 map Some [intColumn ''user_id'' True, intColumn ''group_id'' True]"
    by (simp add: membershipTable_def)
  have some: "[intColumn ''user_id'' True, intColumn ''group_id'' True] \<noteq> [] \<or>
              2 \<le> length (PrimaryKeys membershipTable)"
    by simp
  have trims: "TrimRight ''`user_id` INT NOT NULL '' = ''`user_id` INT NOT NULL''"
    "TrimRight ''`group_id` INT NOT NULL '' = ''`group_id` INT NOT NULL''"
    by code_simp+
  have nonblank: "\<forall>col\<in>set [intColumn ''user_id'' True, intColumn ''group_id'' True].
          TrimRight (columnDef mysqlDialect membershipTable col) \<noteq> []"
    by (simp add: columnDef_def intColumn_def membershipTable_def mysqlDialect_def trims)
  from CreateTableSql_clause_order [OF d u members some, of "''members''" "''InnoDB''" "''latin1''"] nonblank
  show ?thesis
    by (simp add: columnDef_def intColumn_def membershipTable_def mysqlDialect_def trims
        primaryKeyClause_def)
qed

text \<open>
  The claim as stated fails for a table with no columns and fewer than two primary-key
  names: the slice removes the opening parenthesis, so the output does not begin with
  the header.
\<close>

theorem CreateTableSql_without_columns_loses_parenthesis:
  "Base_CreateTableSql mysqlBase emptyTable [] [] [] =
     Inr ''CREATE TABLE IF NOT EXISTS `t`) DEFAULT CHARSET utf8;'' \<and>
   \<not> (\<exists>rest. Base_CreateTableSql mysqlBase emptyTable [] [] [] =
                 Inr (''CREATE TABLE IF NOT EXISTS `t` ('' @ rest))"
proof -
  have "Base_CreateTableSql mysqlBase emptyTable [] [] [] =
     Inr ''CREATE TABLE IF NOT EXISTS `t`) DEFAULT CHARSET utf8;''"
    by (simp add: Base_CreateTableSql_def Base_Quote_def sliceTo_def mysqlBase_def
        mysqlDialect_def mysqlUri_def emptyTable_def)
  then show ?thesis by simp
qed

section \<open>DropTableSql and CreateIndexSql\<close>

text \<open>
  Claim C4: for every dialect, with any quote character, \<open>DropTableSql(t)\<close> is
  \<open>DROP TABLE IF EXISTS\<close> followed by \<open>t\<close> wrapped in the quote character of the dialect.
  The code writes the backquote into the template instead of calling \<open>Quote\<close>: for a
  dialect whose quote character is the double quote, the table name comes out in
  backquotes, which is not what \<open>Quote\<close> gives for the same name.
\<close>

theorem DropTableSql_ignores_quote_character:
  "Base_DropTableSql postgresBase ''orders'' = ''DROP TABLE IF EXISTS `orders`'' \<and>
   Base_DropTableSql postgresBase ''orders'' \<noteq>
     ''DROP TABLE IF EXISTS '' @ QuoteStr postgresDialect @ ''orders'' @ QuoteStr postgresDialect \<and>
   Base_Quote postgresBase ''orders'' = Inr (QuoteStr postgresDialect @ ''orders'' @ QuoteStr postgresDialect)"
  by (simp add: Base_DropTableSql_def Base_Quote_def postgresBase_def postgresDialect_def)

text \<open>
  Claim C2: \<open>CreateIndexSql\<close> begins with \<open>CREATE UNIQUE INDEX\<close> exactly when the type of
  the index is the unique type, and with \<open>CREATE INDEX\<close> otherwise; the name of the index is
  \<open>UQE_\<close> followed by the table name, an underscore and the name of the index when the
  index is unique, and \<open>IDX_\<close> followed by the same otherwise. Stated for an adapter whose
  dialect is bound; the whole statement is given.
\<close>

theorem CreateIndexSql_text:
  assumes "dialect b = Some d"
  shows "\<exists>out. Base_CreateIndexSql b tableName index = Inr out \<and>
           (prefix ''CREATE UNIQUE INDEX'' out \<longleftrightarrow> Type index = UniqueType) \<and>
           (Type index \<noteq> UniqueType \<longrightarrow> prefix ''CREATE INDEX'' out) \<and>
           out = ''CREATE'' @ (if Type index = UniqueType then '' UNIQUE'' else []) @ '' INDEX ''
                 @ QuoteStr d
                 @ (if Type index = UniqueType then ''UQE_'' else ''IDX_'')
                 @ tableName @ ''_'' @ Index.Name index
                 @ QuoteStr d
                 @ '' ON '' @ QuoteStr d @ tableName @ QuoteStr d
                 @ '' ('' @ QuoteStr d @ Join (Cols index) (QuoteStr d @ '','' @ QuoteStr d) @ QuoteStr d
                 @ '');''"
  using assms
  by (simp add: Base_CreateIndexSql_def Base_Quote_def)

theorem CreateIndexSql_text_witness:
  "dialect mysqlBase = Some mysqlDialect \<and>
   Base_CreateIndexSql mysqlBase ''users'' nameIndex =
     Inr ''CREATE UNIQUE INDEX `UQE_users_name` ON `users` (`name`,`id`);'' \<and>
   Base_CreateIndexSql mysqlBase ''users'' (nameIndex\<lparr>Type := UniqueType - 1\<rparr>) =
     Inr ''CREATE INDEX `IDX_users_name` ON `users` (`name`,`id`);''"
proof -
  have d: "dialect mysqlBase = Some mysqlDialect"
    by (simp add: mysqlBase_def)
  from CreateIndexSql_text [OF d, of "''users''" nameIndex]
  have "Base_CreateIndexSql mysqlBase ''users'' nameIndex =
     Inr ''CREATE UNIQUE INDEX `UQE_users_name` ON `users` (`name`,`id`);''"
    by (auto simp: nameIndex_def mysqlDialect_def)
  moreover from CreateIndexSql_text [OF d, of "''users''" "nameIndex\<lparr>Type := UniqueType - 1\<rparr>"]
  have "Base_CreateIndexSql mysqlBase ''users'' (nameIndex\<lparr>Type := UniqueType - 1\<rparr>) =
     Inr ''CREATE INDEX `IDX_users_name` ON `users` (`name`,`id`);''"
    by (auto simp: nameIndex_def mysqlDialect_def)
  ultimately show ?thesis using d by simp
qed

section \<open>Statement terminators\<close>

lemma set_Join: "set (Join xs sep) \<subseteq> (\<Union>x\<in>set xs. set x) \<union> set sep"
  by (induction xs sep rule: Join.induct) auto

lemma set_appendDefs:
  "set (appendDefs acc rs) \<subseteq> set acc \<union> (\<Union>r\<in>set rs. set r) \<union> set '', ''"
proof (induction rs arbitrary: acc)
  case Nil
  then show ?case by auto
next
  case (Cons r rs)
  have "set (TrimRight (acc @ r)) \<subseteq> set acc \<union> set r"
    using set_TrimRight [of "acc @ r"] by simp
  with Cons.IH [of "TrimRight (acc @ r) @ '', ''"] show ?case
    by auto
qed

lemma CreateTableSql_columns_resolved:
  "CreateTableSql_columns d table names sql = Inr out \<Longrightarrow>
     \<exists>cols. map (GetColumn table) names = map Some cols"
proof (induction names arbitrary: sql)
  case Nil
  then show ?case by simp
next
  case (Cons n names)
  from Cons.prems obtain col sql' where col: "GetColumn table n = Some col"
    and rest: "CreateTableSql_columns d table names sql' = Inr out"
    by (auto simp: Let_def split: option.splits)
  from Cons.IH [OF rest] obtain cols where "map (GetColumn table) names = map Some cols" ..
  with col have "map (GetColumn table) (n # names) = map Some (col # cols)"
    by simp
  then show ?case ..
qed

lemma CreateTableSql_returns:
  assumes "dialect b = Some d"
    and "Base_CreateTableSql b table tableName storeEngine charset = Inr out"
  shows "(\<exists>cols. map (GetColumn table) (ColumnsSeq table) = map Some cols) \<and>
         (SupportCharset d \<and> charset = [] \<longrightarrow> URI d \<noteq> None)"
proof
  from assms obtain sql1 sql2 where "CreateTableSql_columns d table (ColumnsSeq table) sql1 = Inr sql2"
    unfolding Base_CreateTableSql_def Let_def
    by (auto simp: Base_Quote_bound split: sum.splits)
  then show "\<exists>cols. map (GetColumn table) (ColumnsSeq table) = map Some cols"
    by (rule CreateTableSql_columns_resolved)
next
  from assms show "SupportCharset d \<and> charset = [] \<longrightarrow> URI d \<noteq> None"
    unfolding Base_CreateTableSql_def Let_def
    by (auto simp: Base_Quote_bound split: sum.splits option.splits)
qed

lemma resolved_column:
  assumes "map (GetColumn table) names = map Some cols" and "col \<in> set cols"
  shows "\<exists>n\<in>set names. GetColumn table n = Some col"
proof -
  from assms(2) have "Some col \<in> set (map Some cols)" by simp
  then have "Some col \<in> set (map (GetColumn table) names)" by (simp only: assms(1))
  then show ?thesis by auto
qed

text \<open>
  Claim C5, as amended: \<open>CreateIndexSql\<close> and \<open>CreateTableSql\<close> return, whenever they
  return, a string that ends with a semicolon, and it is a single statement in this
  sense: when none of the texts that the caller and the dialect supply (quote
  character, names, column renderings, engine, charset) contains a semicolon, the
  final semicolon is the only one. \<open>DropTableSql\<close> returns a \<open>DROP TABLE IF EXISTS\<close>
  statement that does not end with a semicolon, and that contains one only when the
  table name does.
\<close>

theorem synthesis_statement_terminator:
  assumes "dialect b = Some d"
  shows "(\<exists>out. Base_CreateIndexSql b tableName index = Inr out \<and> last out = CHR '';'' \<and>
            (CHR '';'' \<notin> set (QuoteStr d) \<and> CHR '';'' \<notin> set tableName \<and>
             CHR '';'' \<notin> set (Index.Name index) \<and> (\<forall>c\<in>set (Cols index). CHR '';'' \<notin> set c)
             \<longrightarrow> CHR '';'' \<notin> set (butlast out))) \<and>
         (\<forall>out. Base_CreateTableSql b table tableName storeEngine charset = Inr out \<longrightarrow>
            last out = CHR '';'' \<and>
            (CHR '';'' \<notin> set (QuoteStr d) \<and>
             CHR '';'' \<notin> set (if tableName = [] then Table.Name table else tableName) \<and>
             (\<forall>name\<in>set (PrimaryKeys table). CHR '';'' \<notin> set name) \<and>
             (\<forall>name\<in>set (ColumnsSeq table). \<forall>col. GetColumn table name = Some col \<longrightarrow>
                 CHR '';'' \<notin> set (String col d) \<and> CHR '';'' \<notin> set (StringNoPk col d)) \<and>
             CHR '';'' \<notin> set storeEngine \<and> CHR '';'' \<notin> set charset \<and>
             (\<forall>u. URI d = Some u \<longrightarrow> CHR '';'' \<notin> set (Charset u))
             \<longrightarrow> CHR '';'' \<notin> set (butlast out))) \<and>
         prefix ''DROP TABLE IF EXISTS '' (Base_DropTableSql b tableName) \<and>
         last (Base_DropTableSql b tableName) \<noteq> CHR '';'' \<and>
         (CHR '';'' \<notin> set tableName \<longrightarrow> CHR '';'' \<notin> set (Base_DropTableSql b tableName))"
proof (intro conjI allI impI)
  let ?q = "QuoteStr d"
  let ?out = "''CREATE'' @ (if Type index = UniqueType then '' UNIQUE'' else []) @ '' INDEX ''
                 @ ?q @ (if Type index = UniqueType then ''UQE_'' else ''IDX_'')
                 @ tableName @ ''_'' @ Index.Name index @ ?q
                 @ '' ON '' @ ?q @ tableName @ ?q
                 @ '' ('' @ ?q @ Join (Cols index) (?q @ '','' @ ?q) @ ?q"
  have out: "Base_CreateIndexSql b tableName index = Inr (?out @ '');'')"
    using assms by (simp add: Base_CreateIndexSql_def Base_Quote_def)
  have clean: "CHR '';'' \<notin> set (butlast (?out @ '');''))"
    if "CHR '';'' \<notin> set ?q \<and> CHR '';'' \<notin> set tableName \<and>
        CHR '';'' \<notin> set (Index.Name index) \<and> (\<forall>c\<in>set (Cols index). CHR '';'' \<notin> set c)"
  proof -
    have "CHR '';'' \<notin> set (Join (Cols index) (?q @ '','' @ ?q))"
      using set_Join [of "Cols index" "?q @ '','' @ ?q"] that by auto
    with that show ?thesis
      by (simp add: butlast_append)
  qed
  show "\<exists>out. Base_CreateIndexSql b tableName index = Inr out \<and> last out = CHR '';'' \<and>
            (CHR '';'' \<notin> set (QuoteStr d) \<and> CHR '';'' \<notin> set tableName \<and>
             CHR '';'' \<notin> set (Index.Name index) \<and> (\<forall>c\<in>set (Cols index). CHR '';'' \<notin> set c)
             \<longrightarrow> CHR '';'' \<notin> set (butlast out))"
    using out clean by (intro exI [of _ "?out @ '');''"]) simp
next
  fix out
  assume ret: "Base_CreateTableSql b table tableName storeEngine charset = Inr out"
  from CreateTableSql_returns [OF assms ret] obtain cols
    where cols: "map (GetColumn table) (ColumnsSeq table) = map Some cols"
      and uri: "SupportCharset d \<and> charset = [] \<longrightarrow> URI d \<noteq> None"
    by blast
  let ?q = "QuoteStr d"
  let ?text = "tableHeader d table tableName
                 @ appendDefs [] (map (columnDef d table) cols)
                 @ (if 1 < length (PrimaryKeys table)
                    then ''PRIMARY KEY ( '' @ ?q
                         @ Join (PrimaryKeys table) (?q @ '','' @ ?q)
                         @ ?q @ '' ), ''
                    else [])"
  have out: "out = take (length ?text - 2) ?text @ '')'' @ tableOptions d storeEngine charset @ '';''"
    using CreateTableSql_explicit [OF assms cols uri, of tableName storeEngine] ret by simp
  then show "last out = CHR '';''"
    by simp
  assume clean: "CHR '';'' \<notin> set ?q \<and>
             CHR '';'' \<notin> set (if tableName = [] then Table.Name table else tableName) \<and>
             (\<forall>name\<in>set (PrimaryKeys table). CHR '';'' \<notin> set name) \<and>
             (\<forall>name\<in>set (ColumnsSeq table). \<forall>col. GetColumn table name = Some col \<longrightarrow>
                 CHR '';'' \<notin> set (String col d) \<and> CHR '';'' \<notin> set (StringNoPk col d)) \<and>
             CHR '';'' \<notin> set storeEngine \<and> CHR '';'' \<notin> set charset \<and>
             (\<forall>u. URI d = Some u \<longrightarrow> CHR '';'' \<notin> set (Charset u))"
  have header: "CHR '';'' \<notin> set (tableHeader d table tableName)"
    using clean by (simp add: tableHeader_def)
  have "CHR '';'' \<notin> set (columnDef d table col)" if "col \<in> set cols" for col
  proof -
    from resolved_column [OF cols that] obtain n
      where "n \<in> set (ColumnsSeq table)" and "GetColumn table n = Some col" ..
    with clean show ?thesis
      by (simp add: columnDef_def)
  qed
  then have defs: "CHR '';'' \<notin> set (appendDefs [] (map (columnDef d table) cols))"
    using set_appendDefs [of "[]" "map (columnDef d table) cols"] by auto
  have "CHR '';'' \<notin> set (Join (PrimaryKeys table) (?q @ '','' @ ?q))"
    using set_Join [of "PrimaryKeys table" "?q @ '','' @ ?q"] clean by auto
  with clean have pk: "CHR '';'' \<notin> set (if 1 < length (PrimaryKeys table)
                    then ''PRIMARY KEY ( '' @ ?q
                         @ Join (PrimaryKeys table) (?q @ '','' @ ?q)
                         @ ?q @ '' ), ''
                    else [])"
    by simp
  from header defs pk have "CHR '';'' \<notin> set ?text"
    by simp
  then have body: "CHR '';'' \<notin> set (take (length ?text - 2) ?text)"
    by (meson in_set_takeD)
  have opts: "CHR '';'' \<notin> set (tableOptions d storeEngine charset)"
    using clean by (auto simp: tableOptions_def Let_def split: option.splits)
  have "butlast out = take (length ?text - 2) ?text @ '')'' @ tableOptions d storeEngine charset"
    unfolding out by (simp add: butlast_append)
  with body opts show "CHR '';'' \<notin> set (butlast out)"
    by simp
next
  show "prefix ''DROP TABLE IF EXISTS '' (Base_DropTableSql b tableName)"
    by (simp add: Base_DropTableSql_def)
next
  show "last (Base_DropTableSql b tableName) \<noteq> CHR '';''"
    by (simp add: Base_DropTableSql_def)
next
  assume "CHR '';'' \<notin> set tableName"
  then show "CHR '';'' \<notin> set (Base_DropTableSql b tableName)"
    by (simp add: Base_DropTableSql_def)
qed

theorem synthesis_statement_terminator_witness:
  "Base_CreateTableSql mysqlBase usersTable ''users'' ''InnoDB'' [] =
     Inr ''CREATE TABLE IF NOT EXISTS `users` (`id` INT PRIMARY KEY NOT NULL, `name` TEXT NULL) ENGINE=InnoDB DEFAULT CHARSET utf8;'' \<and>
   last ''CREATE TABLE IF NOT EXISTS `users` (`id` INT PRIMARY KEY NOT NULL, `name` TEXT NULL) ENGINE=InnoDB DEFAULT CHARSET utf8;'' = CHR '';'' \<and>
   CHR '';'' \<notin> set (butlast ''CREATE TABLE IF NOT EXISTS `users` (`id` INT PRIMARY KEY NOT NULL, `name` TEXT NULL) ENGINE=InnoDB DEFAULT CHARSET utf8;'')"
proof -
  let ?S = "''CREATE TABLE IF NOT EXISTS `users` (`id` INT PRIMARY KEY NOT NULL, `name` TEXT NULL) ENGINE=InnoDB DEFAULT CHARSET utf8;''"
  have d: "dialect mysqlBase = Some mysqlDialect"
    by (simp add: mysqlBase_def)
  have ret: "Base_CreateTableSql mysqlBase usersTable ''users'' ''InnoDB'' [] = Inr ?S"
    by code_simp
  have clean: "CHR '';'' \<notin> set (QuoteStr mysqlDialect) \<and>
             CHR '';'' \<notin> set (if ''users'' = [] then Table.Name usersTable else ''users'') \<and>
             (\<forall>name\<in>set (PrimaryKeys usersTable). CHR '';'' \<notin> set name) \<and>
             (\<forall>name\<in>set (ColumnsSeq usersTable). \<forall>col. GetColumn usersTable name = Some col \<longrightarrow>
                 CHR '';'' \<notin> set (String col mysqlDialect) \<and>
                 CHR '';'' \<notin> set (StringNoPk col mysqlDialect)) \<and>
             CHR '';'' \<notin> set ''InnoDB'' \<and> CHR '';'' \<notin> set ([]::string) \<and>
             (\<forall>u. URI mysqlDialect = Some u \<longrightarrow> CHR '';'' \<notin> set (Charset u))"
    by (auto simp: mysqlDialect_def mysqlUri_def usersTable_def intColumn_def textColumn_def)
  note synthesis_statement_terminator [OF d, where table = usersTable and tableName = "''users''"
      and storeEngine = "''InnoDB''" and charset = "[]", THEN conjunct2, THEN conjunct1]
  with ret clean have "last ?S = CHR '';'' \<and> CHR '';'' \<notin> set (butlast ?S)"
    by blast
  with ret show ?thesis
    by (intro conjI) blast+
qed

text \<open>
  The claim as stated fails: the output of \<open>DropTableSql\<close> does not end with a semicolon,
  and an engine name that contains a semicolon is copied into the output of
  \<open>CreateTableSql\<close>, which then holds more than one statement.
\<close>

theorem DropTableSql_not_terminated:
  "Base_DropTableSql mysqlBase ''orders'' = ''DROP TABLE IF EXISTS `orders`'' \<and>
   last (Base_DropTableSql mysqlBase ''orders'') \<noteq> CHR '';'' \<and>
   Base_CreateTableSql mysqlBase usersTable [] ''InnoDB; DROP TABLE users'' [] =
     Inr ''CREATE TABLE IF NOT EXISTS `users` (`id` INT PRIMARY KEY NOT NULL, `name` TEXT NULL) ENGINE=InnoDB; DROP TABLE users DEFAULT CHARSET utf8;''"
proof (intro conjI)
  show "Base_DropTableSql mysqlBase ''orders'' = ''DROP TABLE IF EXISTS `orders`''"
    by (simp add: Base_DropTableSql_def)
  show "last (Base_DropTableSql mysqlBase ''orders'') \<noteq> CHR '';''"
    by (simp add: Base_DropTableSql_def)
  show "Base_CreateTableSql mysqlBase usersTable [] ''InnoDB; DROP TABLE users'' [] =
     Inr ''CREATE TABLE IF NOT EXISTS `users` (`id` INT PRIMARY KEY NOT NULL, `name` TEXT NULL) ENGINE=InnoDB; DROP TABLE users DEFAULT CHARSET utf8;''"
    by code_simp
qed

section \<open>The registry\<close>

lemma RegisterDialects_other:
  "RegisterDialects regs reg = Inr reg' \<Longrightarrow> x \<notin> fst ` set regs \<Longrightarrow>
     QueryDialect x reg' = QueryDialect x reg"
proof (induction regs arbitrary: reg)
  case Nil
  then show ?case by simp
next
  case (Cons r regs)
  obtain y dy where r: "r = (y, dy)" by (cases r)
  from Cons.prems obtain reg1 where
    one: "RegisterDialect y dy reg = Inr reg1" and rest: "RegisterDialects regs reg1 = Inr reg'"
    by (auto simp: r split: sum.splits)
  from Cons.prems have "x \<noteq> y" and "x \<notin> fst ` set regs"
    by (auto simp: r)
  then have "QueryDialect x reg' = QueryDialect x reg1"
    using Cons.IH [OF rest] by simp
  also have "\<dots> = QueryDialect x reg"
    using one \<open>x \<noteq> y\<close>
    by (auto simp: RegisterDialect_def QueryDialect_def split: option.splits)
  finally show ?case .
qed

text \<open>
  Claim C6: registering a \<open>nil\<close> dialect panics; after registering \<open>d1\<close> and then \<open>d2\<close>
  under one identifier, a lookup of it returns \<open>d2\<close>; a lookup of an identifier that was
  never registered returns \<open>nil\<close>, and \<open>QueryDialect\<close> has no panic at all. Never
  registered: the registry is what any sequence of registrations that does not name
  the identifier makes of the initial, empty map.
\<close>

theorem registry_contract:
  "RegisterDialect x None reg = Inl (Panic ''core: Register dialect is nil'') \<and>
   (\<exists>reg1 reg2. RegisterDialect x (Some d1) reg = Inr reg1 \<and>
                 RegisterDialect x (Some d2) reg1 = Inr reg2 \<and>
                 QueryDialect x reg2 = Some d2) \<and>
   (\<forall>regs reg'. RegisterDialects regs dialects = Inr reg' \<longrightarrow> x \<notin> fst ` set regs \<longrightarrow>
        QueryDialect x reg' = None)"
proof (intro conjI allI impI)
  show "RegisterDialect x None reg = Inl (Panic ''core: Register dialect is nil'')"
    by (simp add: RegisterDialect_def)
next
  show "\<exists>reg1 reg2. RegisterDialect x (Some d1) reg = Inr reg1 \<and>
                 RegisterDialect x (Some d2) reg1 = Inr reg2 \<and>
                 QueryDialect x reg2 = Some d2"
    by (simp add: RegisterDialect_def QueryDialect_def)
next
  fix regs reg'
  assume "RegisterDialects regs dialects = Inr reg'" and "x \<notin> fst ` set regs"
  then have "QueryDialect x reg' = QueryDialect x dialects"
    by (rule RegisterDialects_other)
  then show "QueryDialect x reg' = None"
    by (simp add: QueryDialect_def dialects_def)
qed

theorem registry_contract_witness:
  "RegisterDialects [(''mysql'', Some mysqlDialect), (''postgres'', Some postgresDialect)] dialects
     = Inr [''mysql'' \<mapsto> mysqlDialect, ''postgres'' \<mapsto> postgresDialect] \<and>
   ''sqlite3'' \<notin> fst ` set [(''mysql'', Some mysqlDialect), (''postgres'', Some postgresDialect)] \<and>
   QueryDialect ''sqlite3'' [''mysql'' \<mapsto> mysqlDialect, ''postgres'' \<mapsto> postgresDialect] = None"
proof -
  have run: "RegisterDialects [(''mysql'', Some mysqlDialect), (''postgres'', Some postgresDialect)] dialects
     = Inr [''mysql'' \<mapsto> mysqlDialect, ''postgres'' \<mapsto> postgresDialect]"
    by (simp add: RegisterDialect_def dialects_def)
  have fresh: "''sqlite3'' \<notin> fst ` set [(''mysql'', Some mysqlDialect), (''postgres'', Some postgresDialect)]"
    by simp
  from registry_contract [of "''sqlite3''"] run fresh
  have "QueryDialect ''sqlite3'' [''mysql'' \<mapsto> mysqlDialect, ''postgres'' \<mapsto> postgresDialect] = None"
    by blast
  with run fresh show ?thesis by blast
qed

section \<open>Init and the accessors\<close>

text \<open>
  Claim C10, as amended: \<open>Init\<close> returns no error for every input and stores the five
  values; afterwards \<open>DB()\<close>, \<open>URI()\<close>, \<open>DriverName()\<close> and \<open>DataSourceName()\<close> return the
  values of that call, and \<open>DBType()\<close> returns the \<open>DbType\<close> of the URI of that call when
  the URI is not \<open>nil\<close>, and panics on the \<open>nil\<close> pointer when it is.
\<close>

theorem Init_binds_fields:
  "fst (Base_Init b conn dia uri drivername dsn) = None \<and>
   Base_DB (snd (Base_Init b conn dia uri drivername dsn)) = conn \<and>
   Base_URI (snd (Base_Init b conn dia uri drivername dsn)) = uri \<and>
   Base_DriverName (snd (Base_Init b conn dia uri drivername dsn)) = drivername \<and>
   Base_DataSourceName (snd (Base_Init b conn dia uri drivername dsn)) = dsn \<and>
   dialect (snd (Base_Init b conn dia uri drivername dsn)) = dia \<and>
   Base_DBType (snd (Base_Init b conn dia uri drivername dsn)) =
     (case uri of None \<Rightarrow> Inl NilPointerDereference | Some u \<Rightarrow> Inr (DbType u))"
  by (simp add: Base_Init_def Base_DB_def Base_URI_def Base_DriverName_def
      Base_DataSourceName_def Base_DBType_def)

text \<open>
  The claim as stated fails: \<open>Init\<close> accepts a \<open>nil\<close> URI without an error, and
  \<open>DBType()\<close> then returns no value.
\<close>

theorem DBType_after_Init_nil_uri:
  "fst (Base_Init blankBase (Some (Conn 1)) (Some mysqlDialect) None ''mysql'' ''root@/test'') = None \<and>
   Base_DBType (snd (Base_Init blankBase (Some (Conn 1)) (Some mysqlDialect) None ''mysql'' ''root@/test''))
     = Inl NilPointerDereference"
  by (simp add: Base_Init_def Base_DBType_def)

end
